theory Spec2Isabelle
  imports Main "HOL-Library.Word"
begin

unbundle bit_operations_syntax

section \<open>Values, type descriptors, errors\<close>

text \<open>
  A Go \<open>interface{}\<close> holding one of the dynamic types that the go-ethereum \<open>abi\<close>
  package and \<open>contract.go\<close> produce. \<open>VSlice\<close> and \<open>VArray\<close> stand for slices and
  arrays whose element type is not \<open>uint8\<close>; \<open>VBytes\<close> is \<open>[]byte\<close>, \<open>VFixedBytes\<close>
  is \<open>[N]uint8\<close>, \<open>VAddress\<close> is \<open>common.Address\<close>, \<open>VHash\<close> is \<open>common.Hash\<close>,
  \<open>VBigInt\<close> a non-nil \<open>*big.Int\<close>, \<open>VNilBigInt\<close> the nil \<open>*big.Int\<close> and \<open>VNil\<close> the
  nil interface.
\<close>

datatype val =
    VNil
  | VInt8 "8 word" | VInt16 "16 word" | VInt32 "32 word" | VInt64 "64 word"
  | VUint8 "8 word" | VUint16 "16 word" | VUint32 "32 word" | VUint64 "64 word"
  | VBigInt int | VNilBigInt
  | VBool bool
  | VString string
  | VSlice "val list"
  | VArray "val list"
  | VAddress "8 word list"
  | VFixedBytes "8 word list"
  | VBytes "8 word list"
  | VHash "8 word list"

text \<open>
  A \<open>reflect.Type\<close>, as far as \<open>contractUnpack\<close> observes it: the value that
  \<open>reflect.New(t).Elem().Interface()\<close> yields, and the result of \<open>t.Elem()\<close>, which
  panics (\<open>None\<close>) on a type that has no element type.
\<close>

datatype reflect_type = ReflectType (zero_value: val) (Elem_of: "reflect_type option")

text \<open>The tag \<open>T\<close> of an \<open>abi.Type\<close>; \<open>TupleTy\<close> is the tag that neither switch names.\<close>

datatype ty_kind =
    IntTy | UintTy | BoolTy | StringTy | SliceTy | ArrayTy | TupleTy
  | AddressTy | FixedBytesTy | BytesTy | HashTy | FixedPointTy | FunctionTy

text \<open>The fields of \<open>abi.Type\<close> that the code reads.\<close>

datatype abi_type =
  AbiType (Elem: "abi_type option") (Type: reflect_type) (Size: int) (T: ty_kind)

datatype error =
    MethodDoesNotExist string
  | BadInteger string
  | UnhandledSlice abi_type
  | UnhandledArray abi_type
  | InvalidByteSize int
  | UnhandledType abi_type
  | UnknownType abi_type
  | InvalidByteError char
  | ErrLength
  | External string

text \<open>A call either returns its results or panics.\<close>

datatype 'a outcome = Returns 'a | Panics

section \<open>Library primitives\<close>

text \<open>
  The functions of the Go standard library and of go-ethereum that the two source files
  call, written after their sources: \<open>strings\<close>, \<open>encoding/hex\<close>, \<open>math/big\<close> and
  \<open>fmt\<close> as in Go 1.17, \<open>common\<close> as in go-ethereum 1.10, the versions that
  \<open>currentbasefee.go\<close> requires. A Go string is a sequence of bytes, as \<open>string\<close> is.
\<close>

subsection \<open>Package strings\<close>

definition TrimLeft :: "string \<Rightarrow> string \<Rightarrow> string" where
  "TrimLeft s cutset = dropWhile (\<lambda>c. c \<in> set cutset) s"

definition TrimRight :: "string \<Rightarrow> string \<Rightarrow> string" where
  "TrimRight s cutset = rev (dropWhile (\<lambda>c. c \<in> set cutset) (rev s))"

definition Trim :: "string \<Rightarrow> string \<Rightarrow> string" where
  "Trim s cutset = TrimRight (TrimLeft s cutset) cutset"

definition HasPrefix :: "string \<Rightarrow> string \<Rightarrow> bool" where
  "HasPrefix s prefix \<longleftrightarrow> length s \<ge> length prefix \<and> take (length prefix) s = prefix"

definition TrimPrefix :: "string \<Rightarrow> string \<Rightarrow> string" where
  "TrimPrefix s prefix = (if HasPrefix s prefix then drop (length prefix) s else s)"

fun Join :: "string list \<Rightarrow> string \<Rightarrow> string" where
  "Join [] sep = []"
| "Join [x] sep = x"
| "Join (x # y # ys) sep = x @ sep @ Join (y # ys) sep"

subsection \<open>Package encoding/hex\<close>

definition fromHexChar :: "char \<Rightarrow> 8 word option" where
  "fromHexChar c =
     (let n = (of_char c :: nat) in
      if 48 \<le> n \<and> n \<le> 57 then Some (of_nat (n - 48))
      else if 97 \<le> n \<and> n \<le> 102 then Some (of_nat (n - 97 + 10))
      else if 65 \<le> n \<and> n \<le> 70 then Some (of_nat (n - 65 + 10))
      else None)"

text \<open>
  \<open>hex.DecodeString\<close>: the bytes decoded before the first error, and the error. An
  invalid character is reported before an odd length.
\<close>

fun DecodeString :: "string \<Rightarrow> 8 word list \<times> error option" where
  "DecodeString [] = ([], None)"
| "DecodeString [p] =
     (case fromHexChar p of
        None \<Rightarrow> ([], Some (InvalidByteError p))
      | Some a \<Rightarrow> ([], Some ErrLength))"
| "DecodeString (p # q # rest) =
     (case fromHexChar p of
        None \<Rightarrow> ([], Some (InvalidByteError p))
      | Some a \<Rightarrow>
          (case fromHexChar q of
             None \<Rightarrow> ([], Some (InvalidByteError q))
           | Some b \<Rightarrow>
               (case DecodeString rest of
                  (bs, e) \<Rightarrow> ((push_bit 4 a OR b) # bs, e))))"

definition hextable :: string where
  "hextable = ''0123456789abcdef''"

definition EncodeToString :: "8 word list \<Rightarrow> string" where
  "EncodeToString src =
     concat (map (\<lambda>v. [hextable ! unat (drop_bit 4 v), hextable ! unat (v AND 15)]) src)"

subsection \<open>Packages math/big, strconv and fmt\<close>

definition isDigit :: "char \<Rightarrow> bool" where
  "isDigit c \<longleftrightarrow> 48 \<le> (of_char c :: nat) \<and> (of_char c :: nat) \<le> 57"

definition scanDigits :: "string \<Rightarrow> nat" where
  "scanDigits ds = foldl (\<lambda>z c. z * 10 + (of_char c - 48)) 0 ds"

text \<open>
  \<open>(*big.Int).SetString(s, 10)\<close>: an optional sign, then one or more decimal digits,
  and nothing else; \<open>None\<close> is the failure (\<open>success = false\<close>).
\<close>

definition SetString :: "string \<Rightarrow> int option" where
  "SetString s =
     (case s of
        [] \<Rightarrow> None
      | c # cs \<Rightarrow>
          (let neg = (c = CHR ''-'');
               ds = (if c = CHR ''-'' \<or> c = CHR ''+'' then cs else s)
           in if ds = [] \<or> \<not> list_all isDigit ds then None
              else Some (if neg then - int (scanDigits ds) else int (scanDigits ds))))"

text \<open>
  \<open>(*big.Int).Uint64()\<close> is \<open>low64(x.abs)\<close>: the low 64 bits of the magnitude, whatever
  the sign.
\<close>

definition Uint64 :: "int \<Rightarrow> 64 word" where
  "Uint64 x = word_of_int \<bar>x\<bar>"

definition digits :: string where
  "digits = ''0123456789abcdefghijklmnopqrstuvwxyz''"

fun FormatUint :: "nat \<Rightarrow> string" where
  "FormatUint n =
     (if n < 10 then [digits ! n]
      else FormatUint (n div 10) @ [digits ! (n mod 10)])"

declare FormatUint.simps [simp del]

definition FormatInt :: "int \<Rightarrow> string" where
  "FormatInt i = (if i < 0 then CHR ''-'' # FormatUint (nat (- i)) else FormatUint (nat i))"

subsection \<open>Package common of go-ethereum\<close>

definition has0xPrefix :: "string \<Rightarrow> bool" where
  "has0xPrefix str \<longleftrightarrow>
     length str \<ge> 2 \<and> str ! 0 = CHR ''0'' \<and> (str ! 1 = CHR ''x'' \<or> str ! 1 = CHR ''X'')"

definition Hex2Bytes :: "string \<Rightarrow> 8 word list" where
  "Hex2Bytes str = fst (DecodeString str)"

definition FromHex :: "string \<Rightarrow> 8 word list" where
  "FromHex s =
     (let s1 = (if has0xPrefix s then drop 2 s else s);
          s2 = (if length s1 mod 2 = 1 then CHR ''0'' # s1 else s1)
      in Hex2Bytes s2)"

text \<open>
  \<open>SetBytes\<close> of \<open>Address\<close> and \<open>Hash\<close> on a zero array of \<open>n\<close> bytes: \<open>b\<close> is cropped
  from the left to \<open>n\<close> bytes and copied to the right end.
\<close>

definition SetBytes :: "nat \<Rightarrow> 8 word list \<Rightarrow> 8 word list" where
  "SetBytes n b =
     (let b' = (if length b > n then drop (length b - n) b else b)
      in replicate (n - length b') 0 @ b')"

definition HexToAddress :: "string \<Rightarrow> 8 word list" where
  "HexToAddress s = SetBytes 20 (FromHex s)"

definition HexToHash :: "string \<Rightarrow> 8 word list" where
  "HexToHash s = SetBytes 32 (FromHex s)"

text \<open>
  \<open>(common.Address).Hex()\<close>: the lower-case hex digits, where a letter is written in
  upper case when the matching nibble of the Keccak-256 digest of the digits exceeds 7.
  The hash function is a parameter: it takes the digits and returns the 32-byte digest
  as a big-endian 256-bit word, so that \<open>hash[i/2]\<close> is always in range for the 40
  digits of an address.
\<close>

definition hashByte :: "256 word \<Rightarrow> nat \<Rightarrow> 8 word" where
  "hashByte hash j = ucast (drop_bit (8 * (31 - j)) hash)"

definition checksumHex :: "(string \<Rightarrow> 256 word) \<Rightarrow> 8 word list \<Rightarrow> string" where
  "checksumHex Keccak256 a =
     (let buf = EncodeToString a;
          hash = Keccak256 buf
      in ''0x'' @
         map (\<lambda>(i, c).
                (let b = hashByte hash (i div 2);
                     nib = (if i mod 2 = 0 then drop_bit 4 b else b AND 15)
                 in if (of_char c :: nat) > 57 \<and> nib > 7
                    then char_of ((of_char c :: nat) - 32) else c))
             (enumerate 0 buf))"

definition Address_Hex :: "(string \<Rightarrow> 256 word) \<Rightarrow> 8 word list \<Rightarrow> string" where
  "Address_Hex Keccak256 a = checksumHex Keccak256 a"

definition Hash_Hex :: "8 word list \<Rightarrow> string" where
  "Hash_Hex h = ''0x'' @ EncodeToString h"

subsection \<open>Package fmt: the verb \<open>%v\<close>\<close>

fun Sprintf_v :: "(string \<Rightarrow> 256 word) \<Rightarrow> val \<Rightarrow> string" where
  "Sprintf_v K VNil = ''<nil>''"
| "Sprintf_v K (VInt8 w) = FormatInt (sint w)"
| "Sprintf_v K (VInt16 w) = FormatInt (sint w)"
| "Sprintf_v K (VInt32 w) = FormatInt (sint w)"
| "Sprintf_v K (VInt64 w) = FormatInt (sint w)"
| "Sprintf_v K (VUint8 w) = FormatInt (uint w)"
| "Sprintf_v K (VUint16 w) = FormatInt (uint w)"
| "Sprintf_v K (VUint32 w) = FormatInt (uint w)"
| "Sprintf_v K (VUint64 w) = FormatInt (uint w)"
| "Sprintf_v K (VBigInt n) = FormatInt n"
| "Sprintf_v K VNilBigInt = ''<nil>''"
| "Sprintf_v K (VBool b) = (if b then ''true'' else ''false'')"
| "Sprintf_v K (VString s) = s"
| "Sprintf_v K (VSlice vs) = ''['' @ Join (map (Sprintf_v K) vs) '' '' @ '']''"
| "Sprintf_v K (VArray vs) = ''['' @ Join (map (Sprintf_v K) vs) '' '' @ '']''"
| "Sprintf_v K (VAddress a) = Address_Hex K a"
| "Sprintf_v K (VFixedBytes bs) = ''['' @ Join (map (\<lambda>b. FormatInt (uint b)) bs) '' '' @ '']''"
| "Sprintf_v K (VBytes bs) = ''['' @ Join (map (\<lambda>b. FormatInt (uint b)) bs) '' '' @ '']''"
| "Sprintf_v K (VHash h) = Hash_Hex h"

subsection \<open>Package reflect\<close>

text \<open>
  The elements \<open>Index(0)\<close>, ..., \<open>Index(Len() - 1)\<close> of \<open>reflect.ValueOf(val)\<close> as
  interfaces; \<open>Len\<close> panics (\<open>None\<close>) unless the value is an array, a slice or a string.
\<close>

fun reflect_elems :: "val \<Rightarrow> val list option" where
  "reflect_elems (VSlice vs) = Some vs"
| "reflect_elems (VArray vs) = Some vs"
| "reflect_elems (VAddress a) = Some (map VUint8 a)"
| "reflect_elems (VFixedBytes bs) = Some (map VUint8 bs)"
| "reflect_elems (VBytes bs) = Some (map VUint8 bs)"
| "reflect_elems (VHash h) = Some (map VUint8 h)"
| "reflect_elems (VString s) = Some (map (\<lambda>c. VUint8 (of_char c)) s)"
| "reflect_elems _ = None"

text \<open>\<open>(reflect.Value).Uint()\<close> panics (\<open>None\<close>) unless the value is an unsigned integer.\<close>

fun reflect_Uint :: "val \<Rightarrow> 64 word option" where
  "reflect_Uint (VUint8 w) = Some (ucast w)"
| "reflect_Uint (VUint16 w) = Some (ucast w)"
| "reflect_Uint (VUint32 w) = Some (ucast w)"
| "reflect_Uint (VUint64 w) = Some w"
| "reflect_Uint _ = None"

section \<open>contract.go\<close>

subsection \<open>contractUnpack\<close>

text \<open>
  An \<open>abi.Method\<close>, as \<open>contractUnpack\<close> reads it: the \<open>Type\<close> of each of its
  \<open>Outputs\<close> (\<open>meth\<close> below is the variable \<open>method\<close> of the source). An
  \<open>abi.ABI\<close> is its table of methods and its decoder \<open>Unpack(v, name, data)\<close>, given
  once for each kind of destination that \<open>contractUnpack\<close> passes: a pointer to one
  interface, and a pointer to a slice of pointers to interfaces. The decoder returns
  what the destination holds after the call, and the error.
\<close>

record Method =
  Outputs :: "abi_type list"

record ABI =
  Methods :: "string \<Rightarrow> Method option"
  Unpack_iface :: "val \<Rightarrow> string \<Rightarrow> 8 word list \<Rightarrow> val \<times> error option"
  Unpack_slice :: "val list \<Rightarrow> string \<Rightarrow> 8 word list \<Rightarrow> val list \<times> error option"

text \<open>The loop of the last branch; \<open>Type.Type.Elem()\<close> may panic.\<close>

fun allocLoop :: "abi_type list \<Rightarrow> val list \<Rightarrow> val list option" where
  "allocLoop [] res = Some res"
| "allocLoop (out # outs) res =
     (case Elem_of (Type out) of
        None \<Rightarrow> None
      | Some et \<Rightarrow> allocLoop outs (res @ [zero_value et]))"

text \<open>
  The result is \<open>(result, err)\<close>, where a nil \<open>result\<close> is \<open>None\<close>, together with the
  calls of \<open>abi.Unpack\<close> that were made, each with its \<open>name\<close> and \<open>data\<close>.
\<close>

definition contractUnpack ::
  "ABI \<Rightarrow> string \<Rightarrow> 8 word list \<Rightarrow>
     ((val list option \<times> error option) \<times> (string \<times> 8 word list) list) outcome" where
  "contractUnpack abi name data =
     (case Methods abi name of
        None \<Rightarrow> Returns ((None, Some (MethodDoesNotExist name)), [])
      | Some meth \<Rightarrow>
          if length (Outputs meth) = 0 then Returns ((Some [], None), [])
          else if length (Outputs meth) = 1 then
            (let output = zero_value (Type (Outputs meth ! 0))
             in case Unpack_iface abi output name data of
                  (output', err) \<Rightarrow> Returns ((Some [output'], err), [(name, data)]))
          else
            (case allocLoop (Outputs meth) [] of
               None \<Rightarrow> Panics
             | Some res \<Rightarrow>
                 (case Unpack_slice abi res name data of
                    (res', err) \<Rightarrow> Returns ((Some res', err), [(name, data)]))))"

subsection \<open>contractStringToValue\<close>


text \<open>
  \<open>copy(dst[lo:hi], src)\<close>: the slice expression panics (\<open>None\<close>) unless
  \<open>0 \<le> lo \<le> hi \<le> cap(dst)\<close>; \<open>copy\<close> moves as many elements as fit.
\<close>

definition copy_into :: "'a list \<Rightarrow> int \<Rightarrow> int \<Rightarrow> 'a list \<Rightarrow> 'a list option" where
  "copy_into dst lo hi src =
     (if lo < 0 \<or> hi < lo \<or> int (length dst) < hi then None
      else (let n = min (nat (hi - lo)) (length src)
            in Some (take (nat lo) dst @ take n src @ drop (nat lo + n) dst)))"

text \<open>
  \<open>contractStringToValue\<close>. The result is the pair \<open>(interface{}, error)\<close>. The 32 cases
  of the switch on \<open>argType.Size\<close> each return the array of \<open>Size\<close> bytes that the slice
  (\<open>buf\<close> here) holds, so they are one branch here; \<open>make\<close> panics on a negative length. The hex
  error is stored in the package variable \<open>err\<close>, which the function does not return.
\<close>

definition contractStringToValue :: "abi_type \<Rightarrow> string \<Rightarrow> (val \<times> error option) outcome" where
  "contractStringToValue argType val0 =
     (let val = Trim val0 '' '' in
      case T argType of
        IntTy \<Rightarrow>
          (case SetString val of
             None \<Rightarrow> Returns (VNil, Some (BadInteger val))
           | Some res \<Rightarrow>
               if Size argType = 8 then Returns (VInt8 (ucast (Uint64 res)), None)
               else if Size argType = 16 then Returns (VInt16 (ucast (Uint64 res)), None)
               else if Size argType = 32 then Returns (VInt32 (ucast (Uint64 res)), None)
               else if Size argType = 64 then Returns (VInt64 (Uint64 res), None)
               else Returns (VBigInt res, None))
      | UintTy \<Rightarrow>
          (case SetString val of
             None \<Rightarrow> Returns (VNil, Some (BadInteger val))
           | Some res \<Rightarrow>
               if Size argType = 8 then Returns (VUint8 (ucast (Uint64 res)), None)
               else if Size argType = 16 then Returns (VUint16 (ucast (Uint64 res)), None)
               else if Size argType = 32 then Returns (VUint32 (ucast (Uint64 res)), None)
               else if Size argType = 64 then Returns (VUint64 (Uint64 res), None)
               else Returns (VBigInt res, None))
      | BoolTy \<Rightarrow>
          (if val = ''true'' \<or> val = ''True'' \<or> val = ''1'' then Returns (VBool True, None)
           else Returns (VBool False, None))
      | StringTy \<Rightarrow> Returns (VString val, None)
      | SliceTy \<Rightarrow> Returns (VNil, Some (UnhandledSlice argType))
      | ArrayTy \<Rightarrow> Returns (VNil, Some (UnhandledArray argType))
      | AddressTy \<Rightarrow> Returns (VAddress (HexToAddress val), None)
      | FixedBytesTy \<Rightarrow>
          (if Size argType < 0 then Panics
           else
             (let buf = replicate (nat (Size argType)) (0 :: 8 word);
                  (decoded, err) = DecodeString (TrimPrefix val ''0x'')
              in case (if err = None
                       then copy_into buf (Size argType - int (length decoded))
                              (Size argType) decoded
                       else Some buf) of
                   None \<Rightarrow> Panics
                 | Some buf' \<Rightarrow>
                     if 1 \<le> Size argType \<and> Size argType \<le> 32
                     then Returns (VFixedBytes buf', None)
                     else Returns (VNil, Some (InvalidByteSize (Size argType)))))
      | BytesTy \<Rightarrow>
          (case DecodeString (TrimPrefix val ''0x'') of
             (decoded, err) \<Rightarrow> Returns (VBytes decoded, err))
      | HashTy \<Rightarrow> Returns (VHash (HexToHash val), None)
      | FixedPointTy \<Rightarrow> Returns (VNil, Some (UnhandledType argType))
      | FunctionTy \<Rightarrow> Returns (VNil, Some (UnhandledType argType))
      | TupleTy \<Rightarrow> Returns (VNil, Some (UnknownType argType)))"

subsection \<open>contractValueToString\<close>

text \<open>
  The loop of the \<open>SliceTy\<close> and \<open>ArrayTy\<close> cases over the elements of \<open>arrayVal\<close>,
  with \<open>f\<close> the recursive call on one element, and the return after it.
\<close>

fun joinLoop ::
  "(val \<Rightarrow> (string \<times> error option) outcome) \<Rightarrow> val list \<Rightarrow> string list \<Rightarrow>
     (string \<times> error option) outcome" where
  "joinLoop f [] res = Returns (''['' @ Join res '','' @ '']'', None)"
| "joinLoop f (v # vs) res =
     (case f v of
        Panics \<Rightarrow> Panics
      | Returns (elemRes, Some err) \<Rightarrow> Returns ([], Some err)
      | Returns (elemRes, None) \<Rightarrow> joinLoop f vs (res @ [elemRes]))"

text \<open>The loop of the \<open>FixedBytesTy\<close> case: \<open>castVal[i] = byte(arrayVal.Index(i).Uint())\<close>.\<close>

fun castLoop :: "val list \<Rightarrow> 8 word list option" where
  "castLoop [] = Some []"
| "castLoop (v # vs) =
     (case reflect_Uint v of
        None \<Rightarrow> None
      | Some u \<Rightarrow> (case castLoop vs of None \<Rightarrow> None | Some bs \<Rightarrow> Some (ucast u # bs)))"

text \<open>
  \<open>contractValueToString\<close>, with the hash function of \<open>Address.Hex\<close> as the parameter
  \<open>K\<close>. A failed type assertion panics, and so does \<open>*argType.Elem\<close> on a nil \<open>Elem\<close>,
  which is reached only when there is an element to convert.
\<close>

fun contractValueToString ::
  "(string \<Rightarrow> 256 word) \<Rightarrow> abi_type \<Rightarrow> val \<Rightarrow> (string \<times> error option) outcome" where
  "contractValueToString K (AbiType elem rt sz tk) val =
     (case tk of
        IntTy \<Rightarrow> Returns (Sprintf_v K val, None)
      | UintTy \<Rightarrow> Returns (Sprintf_v K val, None)
      | BoolTy \<Rightarrow>
          (case val of
             VBool b \<Rightarrow> if b = True then Returns (''true'', None) else Returns (''false'', None)
           | _ \<Rightarrow> Panics)
      | StringTy \<Rightarrow> (case val of VString s \<Rightarrow> Returns (s, None) | _ \<Rightarrow> Panics)
      | SliceTy \<Rightarrow>
          (case reflect_elems val of
             None \<Rightarrow> Panics
           | Some arrayVal \<Rightarrow>
               joinLoop (\<lambda>v. case elem of
                                None \<Rightarrow> Panics
                              | Some e \<Rightarrow> contractValueToString K e v) arrayVal [])
      | ArrayTy \<Rightarrow>
          (case reflect_elems val of
             None \<Rightarrow> Panics
           | Some arrayVal \<Rightarrow>
               joinLoop (\<lambda>v. case elem of
                                None \<Rightarrow> Panics
                              | Some e \<Rightarrow> contractValueToString K e v) arrayVal [])
      | AddressTy \<Rightarrow> (case val of VAddress a \<Rightarrow> Returns (Address_Hex K a, None) | _ \<Rightarrow> Panics)
      | FixedBytesTy \<Rightarrow>
          (case reflect_elems val of
             None \<Rightarrow> Panics
           | Some arrayVal \<Rightarrow>
               (case castLoop arrayVal of
                  None \<Rightarrow> Panics
                | Some castVal \<Rightarrow> Returns (''0x'' @ EncodeToString castVal, None)))
      | BytesTy \<Rightarrow>
          (case val of VBytes bs \<Rightarrow> Returns (''0x'' @ EncodeToString bs, None) | _ \<Rightarrow> Panics)
      | HashTy \<Rightarrow> (case val of VHash h \<Rightarrow> Returns (Hash_Hex h, None) | _ \<Rightarrow> Panics)
      | FixedPointTy \<Rightarrow> Returns ([], Some (UnhandledType (AbiType elem rt sz tk)))
      | FunctionTy \<Rightarrow> Returns ([], Some (UnhandledType (AbiType elem rt sz tk)))
      | TupleTy \<Rightarrow> Returns ([], Some (UnknownType (AbiType elem rt sz tk))))"

section \<open>currentbasefee.go\<close>

text \<open>
  What a call of \<open>CurrentBaseFee\<close> finds outside the connection: the answers of the
  client to \<open>BlockNumber\<close> and \<open>BlockByNumber\<close>, the configuration read by
  \<open>viper.GetString\<close>, \<open>string2eth.StringToWei\<close> with its two results, and
  \<open>misc.CalcBaseFee\<close> applied to the London configuration and the header of a block.
\<close>

record 'b world =
  BlockNumber :: "error + 64 word"
  BlockByNumber :: "int \<Rightarrow> error + 'b"
  GetString :: "string \<Rightarrow> string"
  StringToWei :: "string \<Rightarrow> int option \<times> error option"
  CalcBaseFee :: "'b \<Rightarrow> int"

text \<open>
  The declaration of \<open>Conn\<close> is in another file of the package; the record has the two
  fields that \<open>CurrentBaseFee\<close> reads and writes, a pointer to a client and a
  \<open>*big.Int\<close>, each of which may be nil.
\<close>

datatype Client = EthClient

record Conn =
  client :: "Client option"
  baseFeePerGas :: "int option"

text \<open>The result is \<open>(*big.Int, error)\<close> and the connection after the call.\<close>

definition CurrentBaseFee ::
  "'b world \<Rightarrow> Conn \<Rightarrow> (int option \<times> error option) \<times> Conn" where
  "CurrentBaseFee w c =
     (case client c of
        None \<Rightarrow>
          (case baseFeePerGas c of
             Some fee \<Rightarrow> ((Some fee, None), c)
           | None \<Rightarrow>
               (case StringToWei w (GetString w ''base-fee-per-gas'') of
                  (fee, err) \<Rightarrow>
                    (let c' = c\<lparr>baseFeePerGas := fee\<rparr>
                     in case err of
                          Some e \<Rightarrow> ((None, Some e), c')
                        | None \<Rightarrow> ((baseFeePerGas c', None), c'))))
      | Some cl \<Rightarrow>
          (case BlockNumber w of
             Inl e \<Rightarrow> ((None, Some e), c)
           | Inr blockNum \<Rightarrow>
               (case BlockByNumber w (sint blockNum) of
                  Inl e \<Rightarrow> ((None, Some e), c)
                | Inr block \<Rightarrow>
                    (case baseFeePerGas c of
                       Some fee \<Rightarrow> ((Some fee, None), c)
                     | None \<Rightarrow> ((Some (CalcBaseFee w block), None), c)))))"

text \<open>A sequence of calls on one connection, each in the world it finds.\<close>

fun CurrentBaseFee_calls ::
  "'b world list \<Rightarrow> Conn \<Rightarrow> (int option \<times> error option) list \<times> Conn" where
  "CurrentBaseFee_calls [] c = ([], c)"
| "CurrentBaseFee_calls (w # ws) c =
     (case CurrentBaseFee w c of
        (r, c') \<Rightarrow> (case CurrentBaseFee_calls ws c' of (rs, c'') \<Rightarrow> (r # rs, c'')))"

section \<open>Notions used in the statements\<close>

text \<open>
  The typed values that a scalar descriptor carries, after the data model of the
  specification and the types that the \<open>abi\<close> package gives them: a fixed-width integer at
  the widths 8, 16, 32 and 64 and an arbitrary-precision integer within the declared
  width otherwise, a boolean, a string, an address of 20 bytes, a byte sequence, a hash
  of 32 bytes.
\<close>

definition fixed_width :: "int \<Rightarrow> bool" where
  "fixed_width sz \<longleftrightarrow> sz = 8 \<or> sz = 16 \<or> sz = 32 \<or> sz = 64"

definition representable :: "abi_type \<Rightarrow> val \<Rightarrow> bool" where
  "representable t v =
     (case T t of
        IntTy \<Rightarrow>
          (case v of
             VInt8 w \<Rightarrow> Size t = 8
           | VInt16 w \<Rightarrow> Size t = 16
           | VInt32 w \<Rightarrow> Size t = 32
           | VInt64 w \<Rightarrow> Size t = 64
           | VBigInt n \<Rightarrow>
               \<not> fixed_width (Size t) \<and> 0 < Size t \<and>
               - (2 ^ (nat (Size t) - 1)) \<le> n \<and> n < 2 ^ (nat (Size t) - 1)
           | _ \<Rightarrow> False)
      | UintTy \<Rightarrow>
          (case v of
             VUint8 w \<Rightarrow> Size t = 8
           | VUint16 w \<Rightarrow> Size t = 16
           | VUint32 w \<Rightarrow> Size t = 32
           | VUint64 w \<Rightarrow> Size t = 64
           | VBigInt n \<Rightarrow> \<not> fixed_width (Size t) \<and> 0 \<le> n \<and> n < 2 ^ nat (Size t)
           | _ \<Rightarrow> False)
      | BoolTy \<Rightarrow> (case v of VBool b \<Rightarrow> True | _ \<Rightarrow> False)
      | StringTy \<Rightarrow> (case v of VString s \<Rightarrow> True | _ \<Rightarrow> False)
      | AddressTy \<Rightarrow> (case v of VAddress a \<Rightarrow> length a = 20 | _ \<Rightarrow> False)
      | BytesTy \<Rightarrow> (case v of VBytes bs \<Rightarrow> True | _ \<Rightarrow> False)
      | HashTy \<Rightarrow> (case v of VHash h \<Rightarrow> length h = 32 | _ \<Rightarrow> False)
      | _ \<Rightarrow> False)"

text \<open>A negative value of a fixed-width signed integer type.\<close>

fun negative_fixed :: "val \<Rightarrow> bool" where
  "negative_fixed (VInt8 w) \<longleftrightarrow> sint w < 0"
| "negative_fixed (VInt16 w) \<longleftrightarrow> sint w < 0"
| "negative_fixed (VInt32 w) \<longleftrightarrow> sint w < 0"
| "negative_fixed (VInt64 w) \<longleftrightarrow> sint w < 0"
| "negative_fixed _ \<longleftrightarrow> False"

text \<open>A string that begins or ends with a space.\<close>

fun space_padded :: "val \<Rightarrow> bool" where
  "space_padded (VString s) \<longleftrightarrow> Trim s '' '' \<noteq> s"
| "space_padded _ \<longleftrightarrow> False"

text \<open>
  A digit of the hex table, or its upper-case form where \<open>checksumHex\<close> may write one.
\<close>

definition cased :: "char \<Rightarrow> char \<Rightarrow> bool" where
  "cased c' c \<longleftrightarrow>
     c' = c \<or> ((of_char c :: nat) > 57 \<and> c' = char_of ((of_char c :: nat) - 32))"

subsection \<open>Concrete inputs\<close>

definition zero_hash :: "string \<Rightarrow> 256 word" where
  "zero_hash buf = 0"

definition string_type :: abi_type where
  "string_type = AbiType None (ReflectType (VString []) None) 0 StringTy"

definition int8_type :: abi_type where
  "int8_type = AbiType None (ReflectType (VInt8 0) None) 8 IntTy"

definition ones_hash :: "string \<Rightarrow> 256 word" where
  "ones_hash buf = - 1"

definition address_type :: abi_type where
  "address_type = AbiType None (ReflectType (VAddress (replicate 20 0)) None) 20 AddressTy"

definition example_address :: "8 word list" where
  "example_address =
     [0xab, 0x1f, 0x03, 0x04, 0x05, 0x06, 0x07, 0x08, 0x09, 0x0a,
      0x0b, 0x0c, 0x0d, 0x0e, 0x0f, 0x10, 0x11, 0x12, 0x13, 0xff]"

definition uint256 :: abi_type where
  "uint256 = AbiType None (ReflectType VNilBigInt None) 256 UintTy"

definition uint256_slice :: abi_type where
  "uint256_slice = AbiType (Some uint256) (ReflectType (VSlice []) None) 0 SliceTy"

definition example_abi :: ABI where
  "example_abi =
     \<lparr>Methods = [''ping'' \<mapsto> \<lparr>Outputs = []\<rparr>],
      Unpack_iface = (\<lambda>v name data. (v, None)),
      Unpack_slice = (\<lambda>vs name data. (vs, None))\<rparr>"

definition live_world :: "nat world" where
  "live_world =
     \<lparr>BlockNumber = Inr 100,
      BlockByNumber = (\<lambda>number. Inr (nat number)),
      GetString = (\<lambda>key. ''1 gwei''),
      StringToWei = (\<lambda>input. (Some 1000000000, None)),
      CalcBaseFee = (\<lambda>block. 875)\<rparr>"

definition failing_world :: "nat world" where
  "failing_world = live_world\<lparr>BlockNumber := Inl (External ''connection refused'')\<rparr>"

definition missing_block_world :: "nat world" where
  "missing_block_world =
     live_world\<lparr>BlockByNumber := (\<lambda>number. Inl (External ''not found''))\<rparr>"

section \<open>Properties of the string-to-value converter\<close>

text \<open>
  C7. For a Bool descriptor the converter returns true exactly when the input, trimmed
  of spaces, is "true", "True" or "1", false for every other input, and never an error.
\<close>

theorem bool_parse_total:
  "T argType = BoolTy \<Longrightarrow>
     contractStringToValue argType s =
       Returns (VBool (Trim s '' '' \<in> {''true'', ''True'', ''1''}), None)"
  by (simp add: contractStringToValue_def Let_def)

theorem bool_parse_total_witness:
  "T (AbiType None (ReflectType (VBool False) None) 0 BoolTy) = BoolTy \<and>
   contractStringToValue (AbiType None (ReflectType (VBool False) None) 0 BoolTy) '' True '' =
     Returns (VBool True, None) \<and>
   contractStringToValue (AbiType None (ReflectType (VBool False) None) 0 BoolTy) ''yes'' =
     Returns (VBool False, None)"
  using bool_parse_total [of "AbiType None (ReflectType (VBool False) None) 0 BoolTy" "'' True ''"]
    bool_parse_total [of "AbiType None (ReflectType (VBool False) None) 0 BoolTy" "''yes''"]
  by (simp add: Trim_def TrimLeft_def TrimRight_def)

subsection \<open>The converter, one descriptor kind at a time\<close>

lemma parse_IntTy:
  "T t = IntTy \<Longrightarrow> contractStringToValue t s =
     (case SetString (Trim s '' '') of
        None \<Rightarrow> Returns (VNil, Some (BadInteger (Trim s '' '')))
      | Some res \<Rightarrow>
          if Size t = 8 then Returns (VInt8 (ucast (Uint64 res)), None)
          else if Size t = 16 then Returns (VInt16 (ucast (Uint64 res)), None)
          else if Size t = 32 then Returns (VInt32 (ucast (Uint64 res)), None)
          else if Size t = 64 then Returns (VInt64 (Uint64 res), None)
          else Returns (VBigInt res, None))"
  by (simp add: contractStringToValue_def Let_def)

lemma parse_UintTy:
  "T t = UintTy \<Longrightarrow> contractStringToValue t s =
     (case SetString (Trim s '' '') of
        None \<Rightarrow> Returns (VNil, Some (BadInteger (Trim s '' '')))
      | Some res \<Rightarrow>
          if Size t = 8 then Returns (VUint8 (ucast (Uint64 res)), None)
          else if Size t = 16 then Returns (VUint16 (ucast (Uint64 res)), None)
          else if Size t = 32 then Returns (VUint32 (ucast (Uint64 res)), None)
          else if Size t = 64 then Returns (VUint64 (Uint64 res), None)
          else Returns (VBigInt res, None))"
  by (simp add: contractStringToValue_def Let_def)

lemma parse_StringTy:
  "T t = StringTy \<Longrightarrow> contractStringToValue t s = Returns (VString (Trim s '' ''), None)"
  by (simp add: contractStringToValue_def Let_def)

lemma parse_SliceTy:
  "T t = SliceTy \<Longrightarrow> contractStringToValue t s = Returns (VNil, Some (UnhandledSlice t))"
  by (simp add: contractStringToValue_def Let_def)

lemma parse_ArrayTy:
  "T t = ArrayTy \<Longrightarrow> contractStringToValue t s = Returns (VNil, Some (UnhandledArray t))"
  by (simp add: contractStringToValue_def Let_def)

lemma parse_AddressTy:
  "T t = AddressTy \<Longrightarrow>
     contractStringToValue t s = Returns (VAddress (HexToAddress (Trim s '' '')), None)"
  by (simp add: contractStringToValue_def Let_def)

lemma parse_FixedBytesTy:
  "T t = FixedBytesTy \<Longrightarrow> contractStringToValue t s =
     (if Size t < 0 then Panics
      else
        (let buf = replicate (nat (Size t)) (0 :: 8 word);
             (decoded, err) = DecodeString (TrimPrefix (Trim s '' '') ''0x'')
         in case (if err = None
                  then copy_into buf (Size t - int (length decoded)) (Size t) decoded
                  else Some buf) of
              None \<Rightarrow> Panics
            | Some buf' \<Rightarrow>
                if 1 \<le> Size t \<and> Size t \<le> 32
                then Returns (VFixedBytes buf', None)
                else Returns (VNil, Some (InvalidByteSize (Size t)))))"
  by (simp add: contractStringToValue_def Let_def)

lemma parse_BytesTy:
  "T t = BytesTy \<Longrightarrow> contractStringToValue t s =
     (case DecodeString (TrimPrefix (Trim s '' '') ''0x'') of
        (decoded, err) \<Rightarrow> Returns (VBytes decoded, err))"
  by (simp add: contractStringToValue_def Let_def)

lemma parse_HashTy:
  "T t = HashTy \<Longrightarrow>
     contractStringToValue t s = Returns (VHash (HexToHash (Trim s '' '')), None)"
  by (simp add: contractStringToValue_def Let_def)

subsection \<open>Integers\<close>

lemma uint_Uint64: "uint (Uint64 n) = \<bar>n\<bar> mod 2 ^ 64"
  by (simp add: Uint64_def uint_word_of_int)

lemma uint_ucast_low: "uint (ucast (w :: 64 word) :: 'a::len word) = uint w mod 2 ^ LENGTH('a)"
  by (simp add: unsigned_ucast_eq take_bit_eq_mod)

text \<open>
  C3. For a signed or unsigned integer descriptor of width 8, 16, 32 or 64, a string that
  \<open>SetString\<close> accepts in base 10 is converted without error to the fixed-width value
  made of the low bits of \<open>Uint64()\<close> of the parsed integer, and \<open>Uint64()\<close> is the
  magnitude modulo \<open>2 ^ 64\<close>; for a width above 64 the parsed integer is returned as it
  is. The witness is the input "300" at width 8, which gives 44.
\<close>

theorem int_parse_narrows:
  assumes "SetString (Trim s '' '') = Some n"
  shows "(T t = IntTy \<and> Size t = 8 \<longrightarrow>
            (\<exists>w. contractStringToValue t s = Returns (VInt8 w, None) \<and>
                 uint w = uint (Uint64 n) mod 2 ^ 8)) \<and>
         (T t = IntTy \<and> Size t = 16 \<longrightarrow>
            (\<exists>w. contractStringToValue t s = Returns (VInt16 w, None) \<and>
                 uint w = uint (Uint64 n) mod 2 ^ 16)) \<and>
         (T t = IntTy \<and> Size t = 32 \<longrightarrow>
            (\<exists>w. contractStringToValue t s = Returns (VInt32 w, None) \<and>
                 uint w = uint (Uint64 n) mod 2 ^ 32)) \<and>
         (T t = IntTy \<and> Size t = 64 \<longrightarrow>
            contractStringToValue t s = Returns (VInt64 (Uint64 n), None)) \<and>
         (T t = UintTy \<and> Size t = 8 \<longrightarrow>
            (\<exists>w. contractStringToValue t s = Returns (VUint8 w, None) \<and>
                 uint w = uint (Uint64 n) mod 2 ^ 8)) \<and>
         (T t = UintTy \<and> Size t = 16 \<longrightarrow>
            (\<exists>w. contractStringToValue t s = Returns (VUint16 w, None) \<and>
                 uint w = uint (Uint64 n) mod 2 ^ 16)) \<and>
         (T t = UintTy \<and> Size t = 32 \<longrightarrow>
            (\<exists>w. contractStringToValue t s = Returns (VUint32 w, None) \<and>
                 uint w = uint (Uint64 n) mod 2 ^ 32)) \<and>
         (T t = UintTy \<and> Size t = 64 \<longrightarrow>
            contractStringToValue t s = Returns (VUint64 (Uint64 n), None)) \<and>
         ((T t = IntTy \<or> T t = UintTy) \<and> Size t > 64 \<longrightarrow>
            contractStringToValue t s = Returns (VBigInt n, None)) \<and>
         uint (Uint64 n) = \<bar>n\<bar> mod 2 ^ 64"
  using assms
  by (intro conjI impI; (elim conjE disjE)?)
     (simp_all add: parse_IntTy parse_UintTy uint_ucast_low uint_Uint64)

lemma SetString_300: "SetString (Trim ''300'' '' '') = Some 300"
  by (simp add: SetString_def Trim_def TrimLeft_def TrimRight_def isDigit_def scanDigits_def)

theorem int_parse_narrows_witness:
  "SetString (Trim ''300'' '' '') = Some 300 \<and>
   contractStringToValue (AbiType None (ReflectType (VUint8 0) None) 8 UintTy) ''300'' =
     Returns (VUint8 44, None) \<and>
   contractStringToValue (AbiType None (ReflectType VNilBigInt None) 256 UintTy) ''300'' =
     Returns (VBigInt 300, None)"
proof -
  have h: "SetString (Trim ''300'' '' '') = Some 300" by (rule SetString_300)
  obtain w :: "8 word" where
    w: "contractStringToValue (AbiType None (ReflectType (VUint8 0) None) 8 UintTy) ''300'' =
          Returns (VUint8 w, None)" "uint w = uint (Uint64 300) mod 2 ^ 8"
    using int_parse_narrows [OF h, of "AbiType None (ReflectType (VUint8 0) None) 8 UintTy"]
    by auto
  have "uint w = uint (44 :: 8 word)" using w(2) by (simp add: Uint64_def)
  then have "w = 44" by (simp only: word_uint_eq_iff)
  show ?thesis
    using h w(1) \<open>w = 44\<close>
      int_parse_narrows [OF h, of "AbiType None (ReflectType VNilBigInt None) 256 UintTy"]
    by simp
qed

subsection \<open>Fixed-size byte arrays\<close>

text \<open>
  C6. For a FixedBytes descriptor of size 1 to 32 and an input whose hex digits, after the
  optional 0x prefix, decode without error to at most that many bytes, the converter
  returns the decoded bytes at the right end of a buffer of the declared size, with zero
  bytes before them. The witness is "0xab" at size 4, which gives 00 00 00 ab.
\<close>

theorem fixedbytes_right_aligned:
  assumes "T t = FixedBytesTy" and "1 \<le> Size t" and "Size t \<le> 32"
    and "DecodeString (TrimPrefix (Trim s '' '') ''0x'') = (bs, None)"
    and "int (length bs) \<le> Size t"
  shows "contractStringToValue t s =
           Returns (VFixedBytes (replicate (nat (Size t) - length bs) 0 @ bs), None)"
  using assms
  by (simp add: parse_FixedBytesTy copy_into_def Let_def nat_diff_distrib')

lemma DecodeString_0xab:
  "DecodeString (TrimPrefix (Trim ''0xab'' '' '') ''0x'') = ([0xab], None)"
  by (simp add: Trim_def TrimLeft_def TrimRight_def TrimPrefix_def HasPrefix_def fromHexChar_def)

theorem fixedbytes_right_aligned_witness:
  "T (AbiType None (ReflectType (VFixedBytes [0, 0, 0, 0]) None) 4 FixedBytesTy) = FixedBytesTy \<and>
   DecodeString (TrimPrefix (Trim ''0xab'' '' '') ''0x'') = ([0xab], None) \<and>
   contractStringToValue (AbiType None (ReflectType (VFixedBytes [0, 0, 0, 0]) None) 4 FixedBytesTy)
       ''0xab'' =
     Returns (VFixedBytes [0x00, 0x00, 0x00, 0xab], None)"
  using fixedbytes_right_aligned
    [of "AbiType None (ReflectType (VFixedBytes [0, 0, 0, 0]) None) 4 FixedBytesTy"
        "''0xab''" "[0xab]", OF _ _ _ DecodeString_0xab]
  by (simp add: DecodeString_0xab numeral_eq_Suc)

text \<open>
  C9. For a FixedBytes descriptor of size 1 to 32 and an input whose hex digits decode
  without error to more bytes than the size, the converter returns neither a value nor
  an error: the lower bound of the slice expression is negative and the call panics.
\<close>

theorem fixedbytes_long_input_panics:
  assumes "T t = FixedBytesTy" and "1 \<le> Size t" and "Size t \<le> 32"
    and "DecodeString (TrimPrefix (Trim s '' '') ''0x'') = (bs, None)"
    and "Size t < int (length bs)"
  shows "contractStringToValue t s = Panics"
  using assms
  by (simp add: parse_FixedBytesTy copy_into_def Let_def)

lemma DecodeString_0xabcd:
  "DecodeString (TrimPrefix (Trim ''0xabcd'' '' '') ''0x'') = ([0xab, 0xcd], None)"
  by (simp add: Trim_def TrimLeft_def TrimRight_def TrimPrefix_def HasPrefix_def fromHexChar_def)

theorem fixedbytes_long_input_panics_witness:
  "T (AbiType None (ReflectType (VFixedBytes [0]) None) 1 FixedBytesTy) = FixedBytesTy \<and>
   DecodeString (TrimPrefix (Trim ''0xabcd'' '' '') ''0x'') = ([0xab, 0xcd], None) \<and>
   contractStringToValue (AbiType None (ReflectType (VFixedBytes [0]) None) 1 FixedBytesTy)
       ''0xabcd'' = Panics"
  using fixedbytes_long_input_panics
    [of "AbiType None (ReflectType (VFixedBytes [0]) None) 1 FixedBytesTy"
        "''0xabcd''" "[0xab, 0xcd]", OF _ _ _ DecodeString_0xabcd]
  by (simp add: DecodeString_0xabcd)

text \<open>
  C1, at the input "0xzz" for size 4: the hex decoder reports the invalid byte \<open>z\<close>, and
  the converter returns four zero bytes with a nil error, where the Bytes descriptor
  returns the decoder's error for the same input.
\<close>

theorem fixedbytes_bad_hex_returns_zeros:
  "DecodeString (TrimPrefix (Trim ''0xzz'' '' '') ''0x'') = ([], Some (InvalidByteError CHR ''z'')) \<and>
   contractStringToValue (AbiType None (ReflectType (VFixedBytes [0, 0, 0, 0]) None) 4 FixedBytesTy)
       ''0xzz'' =
     Returns (VFixedBytes [0, 0, 0, 0], None) \<and>
   contractStringToValue (AbiType None (ReflectType (VBytes []) None) 0 BytesTy) ''0xzz'' =
     Returns (VBytes [], Some (InvalidByteError CHR ''z''))"
  by (simp add: parse_FixedBytesTy parse_BytesTy Trim_def TrimLeft_def TrimRight_def
      TrimPrefix_def HasPrefix_def fromHexChar_def numeral_eq_Suc)

subsection \<open>Addresses\<close>

lemma DecodeString_even: "DecodeString s = (bs, None) \<Longrightarrow> even (length s)"
  by (induction s arbitrary: bs rule: DecodeString.induct)
     (auto split: option.splits prod.splits)

lemma length_SetBytes: "length (SetBytes n b) = n"
  by (simp add: SetBytes_def Let_def)

lemma SetBytes_short: "length b \<le> n \<Longrightarrow> SetBytes n b = replicate (n - length b) 0 @ b"
  by (simp add: SetBytes_def Let_def)

lemma FromHex_valid:
  assumes "DecodeString (TrimPrefix v ''0x'') = (bs, None)"
  shows "FromHex v = bs"
proof (cases "HasPrefix v ''0x''")
  case True
  then have p: "has0xPrefix v"
    by (cases v; cases "tl v") (auto simp: HasPrefix_def has0xPrefix_def)
  from True assms have d: "DecodeString (drop 2 v) = (bs, None)"
    by (simp add: TrimPrefix_def numeral_2_eq_2)
  from DecodeString_even [OF d] have "even (length (drop 2 v))" .
  then have "\<not> length (drop 2 v) mod 2 = 1" by presburger
  with p d show ?thesis by (simp add: FromHex_def Hex2Bytes_def del: length_drop)
next
  case False
  with assms have d: "DecodeString v = (bs, None)" by (simp add: TrimPrefix_def)
  have np: "\<not> has0xPrefix v"
  proof
    assume h: "has0xPrefix v"
    then obtain r where v: "v = CHR ''0'' # CHR ''x'' # r \<or> v = CHR ''0'' # CHR ''X'' # r"
      by (cases v; cases "tl v") (auto simp: has0xPrefix_def)
    with False have "v = CHR ''0'' # CHR ''X'' # r" by (auto simp: HasPrefix_def)
    with d show False by (simp add: fromHexChar_def)
  qed
  from DecodeString_even [OF d] have "\<not> length v mod 2 = 1" by presburger
  with np d show ?thesis by (simp add: FromHex_def Hex2Bytes_def)
qed

text \<open>
  C4 as stated fails: the input "zz" is not valid hex, and the converter returns the zero
  address with a nil error.
\<close>

theorem address_parse_bad_hex_succeeds:
  "snd (DecodeString (TrimPrefix (Trim ''zz'' '' '') ''0x'')) = Some (InvalidByteError CHR ''z'') \<and>
   contractStringToValue (AbiType None (ReflectType (VAddress (replicate 20 0)) None) 20 AddressTy)
       ''zz'' =
     Returns (VAddress (replicate 20 0), None)"
  by (simp add: parse_AddressTy HexToAddress_def FromHex_def Hex2Bytes_def has0xPrefix_def
      SetBytes_def Trim_def TrimLeft_def TrimRight_def TrimPrefix_def HasPrefix_def fromHexChar_def)

text \<open>
  C4, amended. For an Address descriptor the converter never fails and never panics: it
  returns an address of 20 bytes with a nil error for every input. When the input, after
  the optional 0x prefix, is valid hex of at most 20 bytes, the address is those bytes at
  the right end, with zero bytes before them.
\<close>

theorem address_parse_never_fails:
  assumes "T t = AddressTy"
  shows "\<exists>a. contractStringToValue t s = Returns (VAddress a, None) \<and> length a = 20 \<and>
           (\<forall>bs. DecodeString (TrimPrefix (Trim s '' '') ''0x'') = (bs, None) \<and> length bs \<le> 20
                 \<longrightarrow> a = replicate (20 - length bs) 0 @ bs)"
  using assms
  by (auto simp: parse_AddressTy HexToAddress_def length_SetBytes FromHex_valid SetBytes_short)

theorem address_parse_never_fails_witness:
  "T (AbiType None (ReflectType (VAddress (replicate 20 0)) None) 20 AddressTy) = AddressTy \<and>
   DecodeString (TrimPrefix (Trim ''0xabcd'' '' '') ''0x'') = ([0xab, 0xcd], None) \<and>
   contractStringToValue (AbiType None (ReflectType (VAddress (replicate 20 0)) None) 20 AddressTy)
       ''0xabcd'' =
     Returns (VAddress (replicate 18 0 @ [0xab, 0xcd]), None)"
  using address_parse_never_fails
    [of "AbiType None (ReflectType (VAddress (replicate 20 0)) None) 20 AddressTy" "''0xabcd''"]
  by (auto simp: DecodeString_0xabcd)

section \<open>Properties of the return-value unpacker\<close>

text \<open>
  C8. For a method that declares no outputs, and any data, \<open>contractUnpack\<close> returns
  the empty sequence with a nil error, and makes no call of the decoder \<open>abi.Unpack\<close>.
\<close>

theorem unpack_zero_outputs:
  assumes "Methods abi name = Some m" and "Outputs m = []"
  shows "contractUnpack abi name data = Returns ((Some [], None), [])"
  using assms by (simp add: contractUnpack_def)

theorem unpack_zero_outputs_witness:
  "Methods example_abi ''ping'' = Some \<lparr>Outputs = []\<rparr> \<and>
   contractUnpack example_abi ''ping'' [0xde, 0xad] = Returns ((Some [], None), [])"
  using unpack_zero_outputs [of example_abi "''ping''" "\<lparr>Outputs = []\<rparr>" "[0xde, 0xad]"]
  by (simp add: example_abi_def)

section \<open>Properties of the value-to-string converter\<close>

lemma joinLoop_all:
  "list_all2 (\<lambda>x r. f x = Returns (r, None)) vs rs \<Longrightarrow>
     joinLoop f vs acc = Returns (''['' @ Join (acc @ rs) '','' @ '']'', None)"
proof (induction vs rs arbitrary: acc rule: list_all2_induct)
  case Nil
  then show ?case by simp
next
  case (Cons x xs r rs)
  from Cons.IH [of "acc @ [r]"] Cons.hyps(1) show ?case by simp
qed

lemma render_SliceTy:
  "T t = SliceTy \<or> T t = ArrayTy \<Longrightarrow> contractValueToString K t v =
     (case reflect_elems v of
        None \<Rightarrow> Panics
      | Some arrayVal \<Rightarrow>
          joinLoop (\<lambda>x. case Elem t of None \<Rightarrow> Panics | Some e \<Rightarrow> contractValueToString K e x)
            arrayVal [])"
  by (cases t) (auto split: option.splits)

lemma render_kinds:
  "T t = IntTy \<or> T t = UintTy \<Longrightarrow> contractValueToString K t v = Returns (Sprintf_v K v, None)"
  "T t = BoolTy \<Longrightarrow> contractValueToString K t (VBool b) =
     Returns (if b then ''true'' else ''false'', None)"
  "T t = StringTy \<Longrightarrow> contractValueToString K t (VString s) = Returns (s, None)"
  "T t = AddressTy \<Longrightarrow> contractValueToString K t (VAddress a) = Returns (Address_Hex K a, None)"
  "T t = BytesTy \<Longrightarrow> contractValueToString K t (VBytes bs) =
     Returns (''0x'' @ EncodeToString bs, None)"
  "T t = HashTy \<Longrightarrow> contractValueToString K t (VHash h) = Returns (Hash_Hex h, None)"
  by (cases t; auto)+

text \<open>
  C5. For a Slice or Array descriptor the string-to-value converter fails with the
  Unhandled error of that kind for every input. The value-to-string converter, on a
  value that has elements each of which the element descriptor converts without error,
  returns the conversions joined by "," between "[" and "]", and "[]" for a container
  without elements. The witness is the slice [1, 2] of uint256, which gives "[1,2]".
\<close>

theorem container_asymmetry:
  "(T t = SliceTy \<longrightarrow> contractStringToValue t s = Returns (VNil, Some (UnhandledSlice t))) \<and>
   (T t = ArrayTy \<longrightarrow> contractStringToValue t s = Returns (VNil, Some (UnhandledArray t))) \<and>
   ((T t = SliceTy \<or> T t = ArrayTy) \<and> Elem t = Some e \<and> reflect_elems v = Some vs \<and>
      list_all2 (\<lambda>x r. contractValueToString K e x = Returns (r, None)) vs rs \<longrightarrow>
      contractValueToString K t v = Returns (''['' @ Join rs '','' @ '']'', None)) \<and>
   ((T t = SliceTy \<or> T t = ArrayTy) \<and> reflect_elems v = Some [] \<longrightarrow>
      contractValueToString K t v = Returns (''[]'', None))"
proof (intro conjI impI)
  assume "T t = SliceTy"
  then show "contractStringToValue t s = Returns (VNil, Some (UnhandledSlice t))"
    by (rule parse_SliceTy)
next
  assume "T t = ArrayTy"
  then show "contractStringToValue t s = Returns (VNil, Some (UnhandledArray t))"
    by (rule parse_ArrayTy)
next
  assume a: "(T t = SliceTy \<or> T t = ArrayTy) \<and> Elem t = Some e \<and> reflect_elems v = Some vs \<and>
      list_all2 (\<lambda>x r. contractValueToString K e x = Returns (r, None)) vs rs"
  then have "joinLoop (contractValueToString K e) vs [] =
      Returns (''['' @ Join ([] @ rs) '','' @ '']'', None)"
    by (intro joinLoop_all) simp
  with a show "contractValueToString K t v = Returns (''['' @ Join rs '','' @ '']'', None)"
    by (simp add: render_SliceTy)
next
  assume "(T t = SliceTy \<or> T t = ArrayTy) \<and> reflect_elems v = Some []"
  then show "contractValueToString K t v = Returns (''[]'', None)"
    by (simp add: render_SliceTy)
qed

theorem container_asymmetry_witness:
  "T uint256_slice = SliceTy \<and> Elem uint256_slice = Some uint256 \<and>
   reflect_elems (VSlice [VBigInt 1, VBigInt 2]) = Some [VBigInt 1, VBigInt 2] \<and>
   list_all2 (\<lambda>x r. contractValueToString zero_hash uint256 x = Returns (r, None))
     [VBigInt 1, VBigInt 2] [''1'', ''2''] \<and>
   contractStringToValue uint256_slice ''[1,2]'' =
     Returns (VNil, Some (UnhandledSlice uint256_slice)) \<and>
   contractValueToString zero_hash uint256_slice (VSlice [VBigInt 1, VBigInt 2]) =
     Returns (''[1,2]'', None) \<and>
   contractValueToString zero_hash uint256_slice (VSlice []) = Returns (''[]'', None)"
proof -
  have e: "list_all2 (\<lambda>x r. contractValueToString zero_hash uint256 x = Returns (r, None))
     [VBigInt 1, VBigInt 2] [''1'', ''2'']"
    by (simp add: uint256_def FormatInt_def FormatUint.simps digits_def)
  have t: "T uint256_slice = SliceTy" "Elem uint256_slice = Some uint256"
    by (simp_all add: uint256_slice_def)
  show ?thesis
    using e t
      container_asymmetry [of uint256_slice "''[1,2]''" uint256 "VSlice [VBigInt 1, VBigInt 2]"
        "[VBigInt 1, VBigInt 2]" zero_hash "[''1'', ''2'']"]
      container_asymmetry [of uint256_slice "''[1,2]''" uint256 "VSlice []" "[]" zero_hash "[]"]
    by simp
qed

section \<open>Rendering a value and parsing it back\<close>

subsection \<open>Decimal integers\<close>

lemma below_10: "(d::nat) < 10 \<Longrightarrow> d \<in> {0, 1, 2, 3, 4, 5, 6, 7, 8, 9}"
  by auto

lemma digits_nth:
  assumes "d < 10"
  shows "isDigit (digits ! d)" and "(of_char (digits ! d) :: nat) - 48 = d"
  using below_10 [OF assms] by (auto simp: digits_def isDigit_def)

lemma FormatUint_digits: "list_all isDigit (FormatUint n)"
proof (induction n rule: FormatUint.induct)
  case (1 n)
  show ?case
  proof (cases "n < 10")
    case True
    then show ?thesis by (subst FormatUint.simps) (simp add: digits_nth)
  next
    case False
    with 1 show ?thesis by (subst FormatUint.simps) (simp add: digits_nth)
  qed
qed

lemma FormatUint_nonempty: "FormatUint n \<noteq> []"
  by (subst FormatUint.simps) simp

lemma scanDigits_snoc: "scanDigits (ds @ [c]) = scanDigits ds * 10 + (of_char c - 48)"
  by (simp add: scanDigits_def)

lemma scanDigits_FormatUint: "scanDigits (FormatUint n) = n"
proof (induction n rule: FormatUint.induct)
  case (1 n)
  show ?case
  proof (cases "n < 10")
    case True
    then show ?thesis
      by (subst FormatUint.simps) (simp add: scanDigits_def digits_nth)
  next
    case False
    with 1 have "scanDigits (FormatUint (n div 10)) = n div 10" by simp
    with False show ?thesis
      by (subst FormatUint.simps) (simp add: scanDigits_snoc digits_nth)
  qed
qed

lemma isDigit_not_sign: "isDigit c \<Longrightarrow> c \<noteq> CHR ''-'' \<and> c \<noteq> CHR ''+'' \<and> c \<noteq> CHR '' ''"
  by (auto simp: isDigit_def)

lemma SetString_FormatInt: "SetString (FormatInt i) = Some i"
proof (cases "i < 0")
  case True
  then show ?thesis
    by (simp add: FormatInt_def SetString_def FormatUint_nonempty FormatUint_digits
        scanDigits_FormatUint)
next
  case False
  obtain c cs where f: "FormatUint (nat i) = c # cs"
    using FormatUint_nonempty [of "nat i"] by (cases "FormatUint (nat i)") auto
  from FormatUint_digits [of "nat i"] f have "isDigit c" "list_all isDigit (c # cs)" by simp_all
  moreover from scanDigits_FormatUint [of "nat i"] f have "scanDigits (c # cs) = nat i" by simp
  ultimately show ?thesis
    using False f isDigit_not_sign [of c] by (simp add: FormatInt_def SetString_def)
qed

lemma dropWhile_none: "\<forall>x \<in> set xs. \<not> P x \<Longrightarrow> dropWhile P xs = xs"
  by (cases xs) auto

lemma Trim_no_space:
  assumes "CHR '' '' \<notin> set s"
  shows "Trim s '' '' = s"
proof -
  have l: "dropWhile (\<lambda>c. c \<in> set '' '') s = s"
    using assms by (intro dropWhile_none) auto
  have r: "dropWhile (\<lambda>c. c \<in> set '' '') (rev s) = rev s"
    using assms by (intro dropWhile_none) auto
  show ?thesis by (simp only: Trim_def TrimLeft_def TrimRight_def l r rev_rev_ident)
qed

lemma FormatInt_no_space: "CHR '' '' \<notin> set (FormatInt i)"
proof -
  have "CHR '' '' \<notin> set (FormatUint n)" for n
    using FormatUint_digits [of n] isDigit_not_sign by (auto simp: list_all_iff)
  then show ?thesis by (simp add: FormatInt_def)
qed

lemma parse_FormatInt: "SetString (Trim (FormatInt i) '' '') = Some i"
  by (simp add: Trim_no_space FormatInt_no_space SetString_FormatInt)

subsection \<open>Fixed-width integers\<close>

lemma Uint64_uint: "Uint64 (uint (w :: 'a::len word)) = ucast w"
  by (simp add: Uint64_def)

lemma ucast_down_up:
  "LENGTH('a::len) \<le> 64 \<Longrightarrow> (ucast (ucast (w :: 'a word) :: 64 word) :: 'a word) = w"
  by (rule bit_word_eqI) (auto simp: bit_simps)

lemma sint_nonneg_uint:
  assumes "0 \<le> sint (w :: 'a::len word)"
  shows "sint w = uint w"
proof -
  have "sint w < 2 ^ (LENGTH('a) - 1)" by (rule sint_lt)
  also have "(2::int) ^ (LENGTH('a) - 1) \<le> 2 ^ LENGTH('a)" by (rule power_increasing) simp_all
  finally have "take_bit LENGTH('a) (sint w) = sint w"
    using assms by (simp add: take_bit_int_eq_self)
  then show ?thesis by (simp add: uint_sint)
qed

lemma narrow_uint:
  "LENGTH('a::len) \<le> 64 \<Longrightarrow> (ucast (Uint64 (uint (w :: 'a word))) :: 'a word) = w"
  by (simp add: Uint64_uint ucast_down_up)

lemma narrow_sint:
  "LENGTH('a::len) \<le> 64 \<Longrightarrow> 0 \<le> sint (w :: 'a word) \<Longrightarrow>
     (ucast (Uint64 (sint w)) :: 'a word) = w"
  by (simp add: sint_nonneg_uint narrow_uint)

lemma round_trip_IntTy:
  assumes "T t = IntTy" and "representable t v" and "\<not> negative_fixed v"
  shows "contractStringToValue t (Sprintf_v K v) = Returns (v, None)"
proof (cases v)
  case (VInt8 w)
  with assms narrow_sint [of w] show ?thesis
    by (simp add: representable_def parse_IntTy parse_FormatInt)
next
  case (VInt16 w)
  with assms narrow_sint [of w] show ?thesis
    by (simp add: representable_def parse_IntTy parse_FormatInt)
next
  case (VInt32 w)
  with assms narrow_sint [of w] show ?thesis
    by (simp add: representable_def parse_IntTy parse_FormatInt)
next
  case (VInt64 w)
  with assms sint_nonneg_uint [of w] show ?thesis
    by (simp add: representable_def parse_IntTy parse_FormatInt Uint64_uint)
next
  case (VBigInt n)
  with assms show ?thesis
    by (simp add: representable_def parse_IntTy parse_FormatInt fixed_width_def)
qed (use assms in \<open>simp_all add: representable_def\<close>)

lemma round_trip_UintTy:
  assumes "T t = UintTy" and "representable t v"
  shows "contractStringToValue t (Sprintf_v K v) = Returns (v, None)"
proof (cases v)
  case (VUint8 w)
  with assms narrow_uint [of w] show ?thesis
    by (simp add: representable_def parse_UintTy parse_FormatInt)
next
  case (VUint16 w)
  with assms narrow_uint [of w] show ?thesis
    by (simp add: representable_def parse_UintTy parse_FormatInt)
next
  case (VUint32 w)
  with assms narrow_uint [of w] show ?thesis
    by (simp add: representable_def parse_UintTy parse_FormatInt)
next
  case (VUint64 w)
  with assms show ?thesis
    by (simp add: representable_def parse_UintTy parse_FormatInt Uint64_uint)
next
  case (VBigInt n)
  with assms show ?thesis
    by (simp add: representable_def parse_UintTy parse_FormatInt fixed_width_def)
qed (use assms in \<open>simp_all add: representable_def\<close>)

subsection \<open>Hex strings\<close>

lemma below_16:
  "(n::nat) < 16 \<Longrightarrow> n \<in> {0, 1, 2, 3, 4, 5, 6, 7, 8, 9, 10, 11, 12, 13, 14, 15}"
  by (simp only: insert_iff empty_iff) arith

lemma cased_hextable:
  assumes "n < 16" and "cased c' (hextable ! n)"
  shows "fromHexChar c' = Some (of_nat n)" and "c' \<noteq> CHR '' ''"
proof -
  from below_16 [OF assms(1)] assms(2)
  show "fromHexChar c' = Some (of_nat n)"
    by (auto simp: cased_def hextable_def fromHexChar_def)
  from below_16 [OF assms(1)] assms(2)
  have "(of_char c' :: nat) \<noteq> 32"
    by (auto simp: cased_def hextable_def)
  then show "c' \<noteq> CHR '' ''" by auto
qed

lemma nibbles_bound: "unat (drop_bit 4 (v :: 8 word)) < 16" "unat (v AND 15) < 16"
proof -
  have "unat (drop_bit 4 v) = unat v div 2 ^ 4" by (simp add: drop_bit_eq_div unat_div)
  moreover have "unat v < 2 ^ 8" using unsigned_less [of v] by simp
  ultimately show "unat (drop_bit 4 (v :: 8 word)) < 16" by simp
  have "v AND 15 = take_bit 4 v" by (simp add: take_bit_eq_mask mask_eq_exp_minus_1)
  then have "unat (v AND 15) = unat v mod 16"
    by (simp add: take_bit_eq_mod unat_mod)
  then show "unat (v AND 15) < 16" by simp
qed

lemma nibbles_join: "push_bit 4 (drop_bit 4 v) OR (v AND 15) = (v :: 8 word)"
proof -
  have m: "v AND 15 = take_bit 4 v" by (simp add: take_bit_eq_mask mask_eq_exp_minus_1)
  have "push_bit 4 (drop_bit 4 v) OR take_bit 4 v = v"
    by (rule bit_word_eqI) (auto simp: bit_simps)
  then show ?thesis by (simp only: m)
qed

lemma EncodeToString_Cons:
  "EncodeToString (v # vs) =
     hextable ! unat (drop_bit 4 v) # hextable ! unat (v AND 15) # EncodeToString vs"
  by (simp add: EncodeToString_def)

lemma EncodeToString_Nil: "EncodeToString [] = []"
  by (simp add: EncodeToString_def)

lemma Decode_cased:
  "list_all2 cased s' (EncodeToString a) \<Longrightarrow> DecodeString s' = (a, None)"
proof (induction a arbitrary: s')
  case Nil
  then show ?case by (simp add: EncodeToString_Nil)
next
  case (Cons v vs)
  from Cons.prems obtain c1 c2 r where s': "s' = c1 # c2 # r"
    and c1: "cased c1 (hextable ! unat (drop_bit 4 v))"
    and c2: "cased c2 (hextable ! unat (v AND 15))"
    and r: "list_all2 cased r (EncodeToString vs)"
    by (auto simp: EncodeToString_Cons list_all2_Cons2)
  from cased_hextable(1) [OF nibbles_bound(1) c1] cased_hextable(1) [OF nibbles_bound(2) c2]
    Cons.IH [OF r] s'
  show ?case by (simp add: nibbles_join)
qed

lemma cased_no_space:
  "list_all2 cased s' (EncodeToString a) \<Longrightarrow> CHR '' '' \<notin> set s'"
proof (induction a arbitrary: s')
  case Nil
  then show ?case by (simp add: EncodeToString_Nil)
next
  case (Cons v vs)
  from Cons.prems obtain c1 c2 r where s': "s' = c1 # c2 # r"
    and c1: "cased c1 (hextable ! unat (drop_bit 4 v))"
    and c2: "cased c2 (hextable ! unat (v AND 15))"
    and r: "list_all2 cased r (EncodeToString vs)"
    by (auto simp: EncodeToString_Cons list_all2_Cons2)
  from cased_hextable(2) [OF nibbles_bound(1) c1] cased_hextable(2) [OF nibbles_bound(2) c2]
    Cons.IH [OF r] s'
  show ?case by auto
qed

lemma cased_refl: "list_all2 cased s s"
  by (simp add: list_all2_refl cased_def)

lemma checksumHex_cased:
  "\<exists>s'. checksumHex K a = ''0x'' @ s' \<and> list_all2 cased s' (EncodeToString a)"
  by (auto simp: checksumHex_def Let_def list_all2_conv_all_nth nth_enumerate_eq cased_def)

lemma hex_string_round_trip:
  assumes "list_all2 cased s' (EncodeToString a)"
  shows "FromHex (Trim (CHR ''0'' # CHR ''x'' # s') '' '') = a"
    and "DecodeString (TrimPrefix (Trim (CHR ''0'' # CHR ''x'' # s') '' '') ''0x'') = (a, None)"
proof -
  have t: "Trim (CHR ''0'' # CHR ''x'' # s') '' '' = CHR ''0'' # CHR ''x'' # s'"
    using cased_no_space [OF assms] by (intro Trim_no_space) simp
  show d: "DecodeString (TrimPrefix (Trim (CHR ''0'' # CHR ''x'' # s') '' '') ''0x'') = (a, None)"
    using Decode_cased [OF assms] by (simp add: t TrimPrefix_def HasPrefix_def)
  then show "FromHex (Trim (CHR ''0'' # CHR ''x'' # s') '' '') = a" by (rule FromHex_valid)
qed

lemma SetBytes_exact: "length b = n \<Longrightarrow> SetBytes n b = b"
  by (simp add: SetBytes_def)

lemma HexToAddress_Hex: "length a = 20 \<Longrightarrow> HexToAddress (Trim (Address_Hex K a) '' '') = a"
  using checksumHex_cased [of K a]
  by (auto simp: HexToAddress_def Address_Hex_def hex_string_round_trip(1) SetBytes_exact)

lemma HexToHash_Hex: "length h = 32 \<Longrightarrow> HexToHash (Trim (Hash_Hex h) '' '') = h"
  using hex_string_round_trip(1) [OF cased_refl, of h]
  by (simp add: HexToHash_def Hash_Hex_def SetBytes_exact)

lemma Bytes_round_trip:
  "DecodeString (TrimPrefix (Trim (''0x'' @ EncodeToString bs) '' '') ''0x'') = (bs, None)"
  using hex_string_round_trip(2) [OF cased_refl, of bs] by simp

subsection \<open>The round trip\<close>

lemma round_trip_BoolTy:
  assumes "T t = BoolTy"
  shows "contractStringToValue t (if b then ''true'' else ''false'') = Returns (VBool b, None)"
  using assms
  by (simp add: contractStringToValue_def Let_def Trim_def TrimLeft_def TrimRight_def)

text \<open>
  The narrowing through \<open>Uint64()\<close> drops the sign: the \<open>int8\<close> value \<open>-1\<close> is rendered
  as "-1", which is parsed back as \<open>1\<close>.
\<close>

lemma negative_int8_not_restored:
  "contractValueToString zero_hash int8_type (VInt8 (- 1)) = Returns (''-1'', None) \<and>
   contractStringToValue int8_type ''-1'' = Returns (VInt8 1, None)"
  by code_simp

text \<open>
  C2 as stated fails for strings: the string " a" is rendered as it is, and parsing the
  rendering gives "a", since the parser trims the spaces at both ends of its input.
\<close>

theorem string_round_trip_fails:
  "representable string_type (VString '' a'') \<and>
   contractValueToString zero_hash string_type (VString '' a'') = Returns ('' a'', None) \<and>
   contractStringToValue string_type '' a'' = Returns (VString ''a'', None) \<and>
   VString ''a'' \<noteq> VString '' a''"
  by (simp add: representable_def string_type_def parse_StringTy Trim_def TrimLeft_def
      TrimRight_def)

text \<open>
  C2, amended. For a scalar descriptor (signed or unsigned integer, boolean, string,
  address, bytes, hash) and a typed value \<open>v\<close> that the descriptor carries, rendering
  \<open>v\<close> succeeds and parsing the rendering returns \<open>v\<close> with a nil error, for every hash
  function \<open>K\<close> behind the address checksum, provided that \<open>v\<close> is not a string that
  begins or ends with a space, and not a negative value of a signed integer type of width
  8, 16, 32 or 64 (the integers that the narrowing through \<open>Uint64()\<close> affects).
\<close>

theorem scalar_round_trip:
  assumes "representable t v" and "\<not> negative_fixed v" and "\<not> space_padded v"
  shows "\<exists>s. contractValueToString K t v = Returns (s, None) \<and>
             contractStringToValue t s = Returns (v, None)"
proof -
  from assms(1) consider
      (int) "T t = IntTy" | (uint) "T t = UintTy" | (bool) b where "T t = BoolTy" "v = VBool b"
    | (str) s where "T t = StringTy" "v = VString s"
    | (addr) a where "T t = AddressTy" "v = VAddress a" "length a = 20"
    | (bytes) bs where "T t = BytesTy" "v = VBytes bs"
    | (hash) h where "T t = HashTy" "v = VHash h" "length h = 32"
    by (cases "T t"; cases v) (simp_all add: representable_def)
  then show ?thesis
  proof cases
    case int
    with assms round_trip_IntTy [of t v K] show ?thesis by (simp add: render_kinds(1))
  next
    case uint
    with assms round_trip_UintTy [of t v K] show ?thesis by (simp add: render_kinds(1))
  next
    case bool
    with round_trip_BoolTy [of t b] show ?thesis by (simp add: render_kinds(2))
  next
    case str
    with assms(3) show ?thesis by (simp add: render_kinds(3) parse_StringTy)
  next
    case addr
    then show ?thesis by (simp add: render_kinds(4) parse_AddressTy HexToAddress_Hex)
  next
    case bytes
    with Bytes_round_trip [of bs] show ?thesis by (simp add: render_kinds(5) parse_BytesTy)
  next
    case hash
    then show ?thesis by (simp add: render_kinds(6) parse_HashTy HexToHash_Hex)
  qed
qed

theorem scalar_round_trip_witness:
  "representable int8_type (VInt8 127) \<and> \<not> negative_fixed (VInt8 127) \<and>
   \<not> space_padded (VInt8 127) \<and>
   contractValueToString zero_hash int8_type (VInt8 127) = Returns (''127'', None) \<and>
   contractStringToValue int8_type ''127'' = Returns (VInt8 127, None) \<and>
   representable address_type (VAddress example_address) \<and>
   \<not> negative_fixed (VAddress example_address) \<and>
   \<not> space_padded (VAddress example_address) \<and>
   contractValueToString ones_hash address_type (VAddress example_address) =
     Returns (''0xAB1F030405060708090A0B0C0D0E0F10111213FF'', None) \<and>
   contractStringToValue address_type ''0xAB1F030405060708090A0B0C0D0E0F10111213FF'' =
     Returns (VAddress example_address, None)"
proof -
  have i: "representable int8_type (VInt8 127)" "\<not> negative_fixed (VInt8 127)"
    "\<not> space_padded (VInt8 127)"
    by (simp_all add: representable_def int8_type_def)
  have a: "representable address_type (VAddress example_address)"
    "\<not> negative_fixed (VAddress example_address)" "\<not> space_padded (VAddress example_address)"
    by (simp_all add: representable_def address_type_def example_address_def)
  have ri: "contractValueToString zero_hash int8_type (VInt8 127) = Returns (''127'', None)"
    by code_simp
  have ra: "contractValueToString ones_hash address_type (VAddress example_address) =
      Returns (''0xAB1F030405060708090A0B0C0D0E0F10111213FF'', None)"
    by code_simp
  from scalar_round_trip [OF i, of zero_hash] ri
  have pi: "contractStringToValue int8_type ''127'' = Returns (VInt8 127, None)" by simp
  from scalar_round_trip [OF a, of ones_hash] ra
  have pa: "contractStringToValue address_type ''0xAB1F030405060708090A0B0C0D0E0F10111213FF'' =
      Returns (VAddress example_address, None)"
    by simp
  from i a ri ra pi pa show ?thesis by simp
qed

section \<open>Properties of the base fee cache\<close>

lemma cached_call:
  "baseFeePerGas c = Some fee \<Longrightarrow>
     snd (CurrentBaseFee w c) = c \<and>
     (fst (CurrentBaseFee w c) = (Some fee, None) \<or> (\<exists>e. fst (CurrentBaseFee w c) = (None, Some e)))"
  by (auto simp: CurrentBaseFee_def split: option.splits sum.splits)

lemma cached_calls:
  "baseFeePerGas c = Some fee \<Longrightarrow>
     snd (CurrentBaseFee_calls ws c) = c \<and>
     (\<forall>r \<in> set (fst (CurrentBaseFee_calls ws c)). r = (Some fee, None) \<or> (\<exists>e. r = (None, Some e)))"
proof (induction ws)
  case Nil
  then show ?case by simp
next
  case (Cons w ws)
  obtain r c' where r: "CurrentBaseFee w c = (r, c')" by (cases "CurrentBaseFee w c")
  with cached_call [OF Cons.prems, of w] have c': "c' = c"
    and rr: "r = (Some fee, None) \<or> (\<exists>e. r = (None, Some e))" by auto
  obtain rs c'' where rs: "CurrentBaseFee_calls ws c = (rs, c'')"
    by (cases "CurrentBaseFee_calls ws c")
  with Cons.IH [OF Cons.prems] have "c'' = c"
    and "\<forall>r \<in> set rs. r = (Some fee, None) \<or> (\<exists>e. r = (None, Some e))" by auto
  with r c' rr rs show ?case by auto
qed

text \<open>
  C10 as stated fails with a client whose \<open>BlockNumber\<close> query fails: the cached base
  fee 7 is in place, and the call returns a nil fee and the error of the query.
\<close>

theorem base_fee_cache_counterexample:
  "baseFeePerGas \<lparr>client = Some EthClient, baseFeePerGas = Some 7\<rparr> = Some 7 \<and>
   CurrentBaseFee failing_world \<lparr>client = Some EthClient, baseFeePerGas = Some 7\<rparr> =
     ((None, Some (External ''connection refused'')),
      \<lparr>client = Some EthClient, baseFeePerGas = Some 7\<rparr>) \<and>
   fst (CurrentBaseFee failing_world \<lparr>client = Some EthClient, baseFeePerGas = Some 7\<rparr>) \<noteq>
     (Some 7, None)"
  by (simp add: CurrentBaseFee_def failing_world_def live_world_def)

text \<open>
  C10, amended. Once the cached base fee is non-nil, no later call of \<open>CurrentBaseFee\<close>
  changes the connection, and every later call returns either exactly the cached value
  with a nil error or a nil value with an error. It returns the cached value when the
  client is nil, and when the client is non-nil and both chain queries succeed; it
  returns the error of the query when the client is non-nil and \<open>BlockNumber\<close> or
  \<open>BlockByNumber\<close> fails. With a non-nil client and an empty cache, the base fee
  computed from the chain head is returned and the cache stays empty.
\<close>

theorem base_fee_cache:
  "(baseFeePerGas c = Some fee \<longrightarrow>
      snd (CurrentBaseFee_calls ws c) = c \<and>
      (\<forall>r \<in> set (fst (CurrentBaseFee_calls ws c)).
          r = (Some fee, None) \<or> (\<exists>e. r = (None, Some e))) \<and>
      (client c = None \<longrightarrow> CurrentBaseFee w c = ((Some fee, None), c)) \<and>
      (BlockNumber w = Inr n \<and> BlockByNumber w (sint n) = Inr b \<longrightarrow>
         CurrentBaseFee w c = ((Some fee, None), c)) \<and>
      (client c \<noteq> None \<and> BlockNumber w = Inl e \<longrightarrow>
         CurrentBaseFee w c = ((None, Some e), c)) \<and>
      (client c \<noteq> None \<and> BlockNumber w = Inr n \<and> BlockByNumber w (sint n) = Inl e \<longrightarrow>
         CurrentBaseFee w c = ((None, Some e), c))) \<and>
   (baseFeePerGas c = None \<and> client c \<noteq> None \<and>
      BlockNumber w = Inr n \<and> BlockByNumber w (sint n) = Inr b \<longrightarrow>
      CurrentBaseFee w c = ((Some (CalcBaseFee w b), None), c))"
proof (intro conjI impI)
  assume "baseFeePerGas c = Some fee"
  from cached_calls [OF this, of ws]
  show "snd (CurrentBaseFee_calls ws c) = c"
    and "\<forall>r \<in> set (fst (CurrentBaseFee_calls ws c)).
          r = (Some fee, None) \<or> (\<exists>e. r = (None, Some e))"
    by simp_all
qed (auto simp: CurrentBaseFee_def split: option.splits)

theorem base_fee_cache_witness:
  "CurrentBaseFee_calls [live_world, failing_world, missing_block_world, live_world]
       \<lparr>client = Some EthClient, baseFeePerGas = Some 7\<rparr> =
     ([(Some 7, None), (None, Some (External ''connection refused'')),
       (None, Some (External ''not found'')), (Some 7, None)],
      \<lparr>client = Some EthClient, baseFeePerGas = Some 7\<rparr>) \<and>
   CurrentBaseFee live_world \<lparr>client = None, baseFeePerGas = Some 7\<rparr> =
     ((Some 7, None), \<lparr>client = None, baseFeePerGas = Some 7\<rparr>) \<and>
   BlockNumber live_world = Inr 100 \<and> BlockByNumber live_world (sint (100 :: 64 word)) = Inr 100 \<and>
   CurrentBaseFee live_world \<lparr>client = Some EthClient, baseFeePerGas = None\<rparr> =
     ((Some 875, None), \<lparr>client = Some EthClient, baseFeePerGas = None\<rparr>)"
proof -
  let ?c = "\<lparr>client = Some EthClient, baseFeePerGas = Some 7\<rparr>"
  have w: "BlockNumber live_world = Inr 100"
    "BlockByNumber live_world (sint (100 :: 64 word)) = Inr 100"
    "CalcBaseFee live_world 100 = 875"
    by (simp_all add: live_world_def)
  have f: "BlockNumber failing_world = Inl (External ''connection refused'')"
    by (simp add: failing_world_def)
  have m: "BlockNumber missing_block_world = Inr 100"
    "BlockByNumber missing_block_world (sint (100 :: 64 word)) = Inl (External ''not found'')"
    by (simp_all add: missing_block_world_def live_world_def)
  have 1: "CurrentBaseFee live_world ?c = ((Some 7, None), ?c)"
    using base_fee_cache [of ?c 7 "[]" live_world 100 100] w by simp
  have 2: "CurrentBaseFee failing_world ?c = ((None, Some (External ''connection refused'')), ?c)"
    using base_fee_cache [of ?c 7 "[]" failing_world 100 100 "External ''connection refused''"] f
    by simp
  have 3: "CurrentBaseFee missing_block_world ?c = ((None, Some (External ''not found'')), ?c)"
    using base_fee_cache [of ?c 7 "[]" missing_block_world 100 100 "External ''not found''"] m
    by simp
  have 4: "CurrentBaseFee live_world \<lparr>client = None, baseFeePerGas = Some 7\<rparr> =
     ((Some 7, None), \<lparr>client = None, baseFeePerGas = Some 7\<rparr>)"
    using base_fee_cache [of "\<lparr>client = None, baseFeePerGas = Some 7\<rparr>" 7 "[]" live_world]
    by simp
  have 5: "CurrentBaseFee live_world \<lparr>client = Some EthClient, baseFeePerGas = None\<rparr> =
     ((Some 875, None), \<lparr>client = Some EthClient, baseFeePerGas = None\<rparr>)"
    using base_fee_cache [of "\<lparr>client = Some EthClient, baseFeePerGas = None\<rparr>" 7 "[]"
        live_world 100 100] w
    by simp
  show ?thesis using 1 2 3 4 5 w by simp
qed

end
